theory Spec2Isabelle
  imports Main "HOL-Library.Word"
begin

section \<open>Platform values shared by the proxy, the producer and the consumer\<close>

type_synonym byte = "8 word"
type_synonym bytes = "byte list"

text \<open>
  What \<^verbatim>\<open>await fetch(url)\<close> gives back. The promise either rejects with an error
  (its \<^verbatim>\<open>message\<close> is kept) or resolves to a response. Of a response the code reads
  \<^verbatim>\<open>status\<close>, \<^verbatim>\<open>ok\<close>, \<^verbatim>\<open>headers.get("Content-Type")\<close> (null when the header is
  absent) and the body, through \<^verbatim>\<open>arrayBuffer()\<close>, \<^verbatim>\<open>blob()\<close> or \<^verbatim>\<open>json()\<close>; reading
  the body can reject as well (\<open>Inl\<close> holds the message).
\<close>

record 'b response =
  resp_status :: int
  resp_contentType :: "string option"
  resp_body :: "string + 'b"

datatype 'b fetch_result = Rejected string | Resolved "'b response"

text \<open>\<^verbatim>\<open>response.ok\<close>: by the Fetch standard, true exactly for a status in 200..299.\<close>

definition ok :: "'b response \<Rightarrow> bool" where
  "ok r = (200 \<le> resp_status r \<and> resp_status r \<le> 299)"

text \<open>
  JavaScript's \<^verbatim>\<open>a || b\<close> on a value that is a string or null/undefined: null,
  undefined and the empty string are falsy, so \<open>b\<close> is taken for them.
\<close>

definition or_else :: "string option \<Rightarrow> string \<Rightarrow> string" where
  "or_else s d = (case s of None \<Rightarrow> d | Some v \<Rightarrow> if v = [] then d else v)"

section \<open>The retrieval proxy (\<^verbatim>\<open>handler\<close> of the IPFS proxy route)\<close>

text \<open>\<^verbatim>\<open>const CACHE_TTL = 5 * 60 * 1000\<close>, in milliseconds.\<close>

definition CACHE_TTL :: int where
  "CACHE_TTL = 5 * 60 * 1000"

text \<open>\<^verbatim>\<open>cache[cid] = { data, contentType, timestamp }\<close>; the cache is \<^verbatim>\<open>let cache = {}\<close>.\<close>

record cache_entry =
  data :: bytes
  contentType :: "string option"
  timestamp :: int

type_synonym cache = "string \<rightharpoonup> cache_entry"

text \<open>\<^verbatim>\<open>req.query.cid\<close>: undefined when the parameter is absent.\<close>

record req =
  query_cid :: "string option"

text \<open>
  The response object \<^verbatim>\<open>res\<close>: the status code, the headers set with
  \<^verbatim>\<open>setHeader\<close>, and the body handed to \<^verbatim>\<open>json\<close> (an object, here always with
  string fields) or to \<^verbatim>\<open>send\<close> (a buffer). What the platform adds of its own when
  the body goes out (the content type of a JSON body, the content length) is not part
  of the handler and is not modelled.
\<close>

datatype payload = Json "(string \<times> string) list" | Raw bytes

record res =
  statusCode :: int
  headers :: "string \<rightharpoonup> string"
  body :: "payload option"

definition res_status :: "res \<Rightarrow> int \<Rightarrow> res" where
  "res_status rs code = rs\<lparr>statusCode := code\<rparr>"

definition res_setHeader :: "res \<Rightarrow> string \<Rightarrow> string \<Rightarrow> res" where
  "res_setHeader rs name v = rs\<lparr>headers := (headers rs)(name \<mapsto> v)\<rparr>"

definition res_json :: "res \<Rightarrow> (string \<times> string) list \<Rightarrow> res" where
  "res_json rs obj = rs\<lparr>body := Some (Json obj)\<rparr>"

definition res_send :: "res \<Rightarrow> bytes \<Rightarrow> res" where
  "res_send rs buf = rs\<lparr>body := Some (Raw buf)\<rparr>"

text \<open>A response object as the platform hands it to the handler: nothing set yet.\<close>

definition new_res :: res where
  "new_res = \<lparr>statusCode = 200, headers = Map.empty, body = None\<rparr>"

text \<open>
  The test \<^verbatim>\<open>cache[cid] && (now - cache[cid].timestamp < CACHE_TTL)\<close>: the entry when
  it is there and fresh.
\<close>

definition cache_lookup :: "cache \<Rightarrow> string \<Rightarrow> int \<Rightarrow> cache_entry option" where
  "cache_lookup c cid now =
     (case c cid of
        None \<Rightarrow> None
      | Some e \<Rightarrow> if now - timestamp e < CACHE_TTL then Some e else None)"

text \<open>
  \<^verbatim>\<open>handler(req, res)\<close>. The module-level cache is passed in and returned; \<open>now\<close> is
  the value of \<^verbatim>\<open>Date.now()\<close>; \<open>fetch\<close> is the network as seen by this call. The
  third component of the result lists the URLs requested upstream, in order.
\<close>

definition ipfsUrl :: "string \<Rightarrow> string" where
  "ipfsUrl cid = ''https://gateway.pinata.cloud/ipfs/'' @ cid"

definition handler ::
  "(string \<Rightarrow> bytes fetch_result) \<Rightarrow> int \<Rightarrow> cache \<Rightarrow> req \<Rightarrow> res \<Rightarrow> res \<times> cache \<times> string list" where
  "handler fetch now c rq rs =
     (let missing = (res_json (res_status rs 400) [(''error'', ''Missing CID'')], c, []) in
      case query_cid rq of
        None \<Rightarrow> missing
      | Some cid \<Rightarrow>
          if cid = [] then missing
          else
            (case cache_lookup c cid now of
               Some e \<Rightarrow>
                 (let rs1 = res_setHeader rs ''Access-Control-Allow-Origin'' ''*'';
                      rs2 = res_setHeader rs1 ''Content-Type''
                              (or_else (contentType e) ''application/octet-stream'')
                  in (res_send (res_status rs2 200) (data e), c, []))
             | None \<Rightarrow>
                 (case fetch (ipfsUrl cid) of
                    Rejected msg \<Rightarrow>
                      (res_json (res_status rs 500) [(''error'', msg)], c, [ipfsUrl cid])
                  | Resolved response \<Rightarrow>
                      if \<not> ok response then
                        (res_json (res_status rs (resp_status response))
                           [(''error'', ''Failed to fetch IPFS content'')], c, [ipfsUrl cid])
                      else
                        (case resp_body response of
                           Inl msg \<Rightarrow>
                             (res_json (res_status rs 500) [(''error'', msg)], c, [ipfsUrl cid])
                         | Inr dataBuffer \<Rightarrow>
                             (let ct = resp_contentType response;
                                  c' = c(cid \<mapsto>
                                         \<lparr>data = dataBuffer, contentType = ct,
                                          timestamp = now\<rparr>);
                                  rs1 = res_setHeader rs ''Access-Control-Allow-Origin'' ''*'';
                                  rs2 = res_setHeader rs1 ''Content-Type''
                                          (or_else ct ''application/octet-stream'')
                              in (res_send (res_status rs2 200) dataBuffer, c',
                                  [ipfsUrl cid]))))))"

text \<open>
  Requests served one after the other by one process (no two in flight at once): each
  has its own clock reading and its own view of the network, starts from a new response
  object, and hands the cache on to the next.
\<close>

record call =
  call_fetch :: "string \<Rightarrow> bytes fetch_result"
  call_now :: int
  call_req :: req

fun serve :: "cache \<Rightarrow> call list \<Rightarrow> cache \<times> (res \<times> string list) list" where
  "serve c [] = (c, [])"
| "serve c (k # ks) =
     (case handler (call_fetch k) (call_now k) c (call_req k) new_res of
        (rs, c', urls) \<Rightarrow>
          (case serve c' ks of (c'', out) \<Rightarrow> (c'', (rs, urls) # out)))"

section \<open>The Web Crypto API, as the producer and the consumer use it\<close>

text \<open>
  AES-GCM itself belongs to the platform (\<^verbatim>\<open>crypto.subtle\<close>), so it is a parameter
  of the model: \<open>encrypt key iv plaintext\<close> and \<open>decrypt key iv data\<close>, each \<open>None\<close>
  when the promise rejects (for \<open>decrypt\<close>: the OperationError of a failed tag check).
  A key is held by its raw bytes.
\<close>

record subtle =
  encrypt :: "bytes \<Rightarrow> bytes \<Rightarrow> bytes \<Rightarrow> bytes option"
  decrypt :: "bytes \<Rightarrow> bytes \<Rightarrow> bytes \<Rightarrow> bytes option"

text \<open>
  \<^verbatim>\<open>importKey("raw", rawKey, {name: "AES-GCM"}, ...)\<close> rejects with a DataError unless
  the key has 128, 192 or 256 bits.
\<close>

definition importKey :: "bytes \<Rightarrow> bytes option" where
  "importKey rawKey =
     (if length rawKey = 16 \<or> length rawKey = 24 \<or> length rawKey = 32
      then Some rawKey else None)"

text \<open>
  The platform's random source is a stream of bytes that is passed along:
  \<^verbatim>\<open>getRandomValues(new Uint8Array(n))\<close> takes the next \<open>n\<close> bytes, and
  \<^verbatim>\<open>generateKey({name: 'AES-GCM', length: 256})\<close> followed by \<^verbatim>\<open>exportKey('raw', key)\<close>
  takes 32.
\<close>

type_synonym entropy = "nat \<Rightarrow> byte"

definition getRandomValues :: "entropy \<Rightarrow> nat \<Rightarrow> bytes \<times> entropy" where
  "getRandomValues rnd n = (map rnd [0..<n], \<lambda>i. rnd (i + n))"

definition generateKey :: "entropy \<Rightarrow> bytes \<times> entropy" where
  "generateKey rnd = getRandomValues rnd 32"

subsection \<open>Typed arrays\<close>

text \<open>
  \<^verbatim>\<open>target.set(source, offset)\<close> copies \<open>source\<close> into \<open>target\<close> from \<open>offset\<close> on and
  throws a RangeError when it does not fit; \<^verbatim>\<open>a.slice(begin, end)\<close> and
  \<^verbatim>\<open>a.slice(begin)\<close> copy a range, clamped to the array; \<^verbatim>\<open>Array.from(a)\<close> lists
  the bytes as numbers; \<^verbatim>\<open>new Uint8Array(numbers)\<close> reduces each number modulo 256.
\<close>

definition u8_set :: "bytes \<Rightarrow> bytes \<Rightarrow> nat \<Rightarrow> bytes option" where
  "u8_set target source offset =
     (if offset + length source \<le> length target
      then Some (take offset target @ source @ drop (offset + length source) target)
      else None)"

definition u8_slice :: "bytes \<Rightarrow> nat \<Rightarrow> nat \<Rightarrow> bytes" where
  "u8_slice a start stop = drop start (take stop a)"

definition u8_slice_from :: "bytes \<Rightarrow> nat \<Rightarrow> bytes" where
  "u8_slice_from a start = drop start a"

definition Array_from :: "bytes \<Rightarrow> int list" where
  "Array_from a = map uint a"

definition Uint8Array_of :: "int list \<Rightarrow> bytes" where
  "Uint8Array_of ns = map word_of_int ns"

subsection \<open>What the two programs leave behind\<close>

text \<open>
  The key file is the JSON object \<^verbatim>\<open>{key: [...], iv: [...]}\<close>; the key route serves
  the same object. Its text form is not modelled.
\<close>

record key_material =
  key :: "int list"
  iv :: "int list"

datatype file_content = Binary bytes | KeyJson key_material

text \<open>
  The effects, in order: files written, the consumer's two debugging lines with the
  bytes they print, \<^verbatim>\<open>console.error\<close> with its label, and the calls into the cipher
  with their arguments (key, iv, data). The producer's two confirmation lines on the
  console are left out.
\<close>

datatype event =
    WriteFile string file_content
  | ConsoleLog string bytes
  | ConsoleError string
  | Encrypt bytes bytes bytes
  | Decrypt bytes bytes bytes

section \<open>The producer (\<^verbatim>\<open>encryptVideo\<close>)\<close>

text \<open>
  \<^verbatim>\<open>encryptVideo(filePath)\<close>, with the \<^verbatim>\<open>.catch\<close> of its caller: any throw ends in
  \<^verbatim>\<open>console.error("Encryption failed:", error)\<close>. \<open>readFileSync\<close> is the file system
  as read (\<open>None\<close>: it throws).
\<close>

definition encryptVideo ::
  "subtle \<Rightarrow> entropy \<Rightarrow> (string \<Rightarrow> bytes option) \<Rightarrow> string \<Rightarrow> event list" where
  "encryptVideo sc rnd readFileSync filePath =
     (case readFileSync filePath of
        None \<Rightarrow> [ConsoleError ''Encryption failed:'']
      | Some arrayBuffer \<Rightarrow>
          (let (rawKey, rnd1) = generateKey rnd;
               (iv, rnd2) = getRandomValues rnd1 12;
               failed = [Encrypt rawKey iv arrayBuffer, ConsoleError ''Encryption failed:'']
           in (case encrypt sc rawKey iv arrayBuffer of
                 None \<Rightarrow> failed
               | Some encrypted \<Rightarrow>
                   (case u8_set (replicate (length iv + length encrypted) 0) iv 0 of
                      None \<Rightarrow> failed
                    | Some withIv \<Rightarrow>
                        (case u8_set withIv encrypted (length iv) of
                           None \<Rightarrow> failed
                         | Some ivAndCiphertext \<Rightarrow>
                             [Encrypt rawKey iv arrayBuffer,
                              WriteFile ''encryptedVideo.bin'' (Binary ivAndCiphertext),
                              WriteFile ''encryptionKey.json''
                                (KeyJson \<lparr>key = Array_from rawKey,
                                          iv = Array_from iv\<rparr>)])))))"

section \<open>The consumer (\<^verbatim>\<open>loadAndDisplay\<close>)\<close>

text \<open>
  The page: the text of the message element, the bytes behind the object URL given to
  the video element (\<open>None\<close> while no source is set), and the two \<^verbatim>\<open>style.display\<close>
  values.
\<close>

record page =
  message_textContent :: string
  videoPlayer_src :: "bytes option"
  videoPlayer_display :: string
  videoContainer_display :: string

text \<open>The text set by the \<^verbatim>\<open>catch\<close> block, byte for byte as it stands in the file.\<close>

definition decryption_failed :: string where
  "decryption_failed =
     [CHR 0xE2, CHR 0x80, CHR 0x9A, CHR 0xC3, CHR 0xB9, CHR 0xC3, CHR 0xA5] @
     '' Decryption failed.''"

definition catch_block :: "page \<Rightarrow> event list \<Rightarrow> page \<times> event list" where
  "catch_block pg evs =
     (pg\<lparr>message_textContent := decryption_failed\<rparr>,
      evs @ [ConsoleError ''Decryption failed:''])"

text \<open>
  \<^verbatim>\<open>loadAndDisplay()\<close>. \<open>videoFetch\<close> is the outcome of fetching the envelope through
  the proxy, \<open>keyFetch\<close> that of fetching the key route (its body read with
  \<^verbatim>\<open>json()\<close>); every throw inside the \<^verbatim>\<open>try\<close> lands in the \<^verbatim>\<open>catch\<close> block.
\<close>

definition loadAndDisplay ::
  "subtle \<Rightarrow> bytes fetch_result \<Rightarrow> key_material fetch_result \<Rightarrow> page \<Rightarrow> page \<times> event list" where
  "loadAndDisplay sc videoFetch keyFetch pg =
     (case videoFetch of
        Rejected msg \<Rightarrow> catch_block pg []
      | Resolved response \<Rightarrow>
          if \<not> ok response then catch_block pg []
          else
            (case resp_body response of
               Inl msg \<Rightarrow> catch_block pg []
             | Inr encryptedBytes \<Rightarrow>
                 (let ivFromFile = u8_slice encryptedBytes 0 12;
                      ciphertext = u8_slice_from encryptedBytes 12
                  in (case keyFetch of
                        Rejected msg \<Rightarrow> catch_block pg []
                      | Resolved keyResponse \<Rightarrow>
                          if \<not> ok keyResponse then catch_block pg []
                          else
                            (case resp_body keyResponse of
                               Inl msg \<Rightarrow> catch_block pg []
                             | Inr keyData \<Rightarrow>
                                 (let rawKey = Uint8Array_of (key keyData);
                                      ivFromKey = Uint8Array_of (iv keyData);
                                      logged =
                                        [ConsoleLog ''IV extracted from file:'' ivFromFile,
                                         ConsoleLog ''IV from encryptionKey.json:'' ivFromKey]
                                  in (case importKey rawKey of
                                        None \<Rightarrow> catch_block pg logged
                                      | Some cryptoKey \<Rightarrow>
                                          (let called =
                                                 logged @ [Decrypt cryptoKey ivFromKey ciphertext]
                                           in (case decrypt sc cryptoKey ivFromKey ciphertext of
                                                 None \<Rightarrow> catch_block pg called
                                               | Some decrypted \<Rightarrow>
                                                   (pg\<lparr>videoPlayer_src := Some decrypted,
                                                       videoPlayer_display := ''block'',
                                                       videoContainer_display := ''block'',
                                                       message_textContent :=
                                                         message_textContent pg @
                                                         '' | Video loaded!''\<rparr>,
                                                    called))))))))))"

text \<open>The nonces and the data that reached \<^verbatim>\<open>subtle.decrypt\<close>, read off the effects.\<close>

fun decrypt_calls :: "event list \<Rightarrow> (bytes \<times> bytes) list" where
  "decrypt_calls [] = []"
| "decrypt_calls (Decrypt k n d # evs) = (n, d) # decrypt_calls evs"
| "decrypt_calls (_ # evs) = decrypt_calls evs"

text \<open>The files written, in order, read off the effects.\<close>

fun files_written :: "event list \<Rightarrow> (string \<times> file_content) list" where
  "files_written [] = []"
| "files_written (WriteFile name content # evs) = (name, content) # files_written evs"
| "files_written (_ # evs) = files_written evs"

section \<open>Example inputs\<close>

text \<open>
  A stand-in for the platform's cipher, used only to run the programs on concrete
  inputs: it appends the first 16 key bytes as a tag and checks them on the way back.
\<close>

definition tagging_cipher :: subtle where
  "tagging_cipher =
     \<lparr>encrypt = (\<lambda>k n p. Some (p @ take 16 k)),
      decrypt = (\<lambda>k n d.
        if 16 \<le> length d \<and> drop (length d - 16) d = take 16 k
        then Some (take (length d - 16) d) else None)\<rparr>"

text \<open>
  A second stand-in, whose tag binds the nonce as well: the nonce followed by the first
  4 key bytes.
\<close>

definition binding_cipher :: subtle where
  "binding_cipher =
     \<lparr>encrypt = (\<lambda>k n p. Some (p @ n @ take 4 k)),
      decrypt = (\<lambda>k n d.
        let tag = n @ take 4 k in
        if length tag \<le> length d \<and> drop (length d - length tag) d = tag
        then Some (take (length d - length tag) d) else None)\<rparr>"

text \<open>The page before the video is shown.\<close>

definition hidden_page :: page where
  "hidden_page =
     \<lparr>message_textContent = ''Yes, you have the NFT'', videoPlayer_src = None,
      videoPlayer_display = ''none'', videoContainer_display = ''none''\<rparr>"

section \<open>Properties of the retrieval proxy\<close>

lemmas res_ops = res_status_def res_setHeader_def res_json_def res_send_def

lemma handler_hit:
  assumes "query_cid rq = Some cid" and "cid \<noteq> []"
    and "c cid = Some e" and "now - timestamp e < CACHE_TTL"
  shows "handler fetch now c rq rs =
     (res_send (res_status (res_setHeader
        (res_setHeader rs ''Access-Control-Allow-Origin'' ''*'')
        ''Content-Type'' (or_else (contentType e) ''application/octet-stream'')) 200) (data e),
      c, [])"
  using assms by (simp add: handler_def cache_lookup_def Let_def)

lemma handler_miss_writes_entry:
  assumes "query_cid rq = Some cid" and "cid \<noteq> []" and "cache_lookup c cid now = None"
    and "fetch (ipfsUrl cid) = Resolved r" and "ok r" and "resp_body r = Inr buf"
  shows "handler fetch now c rq rs =
     (res_send (res_status (res_setHeader
        (res_setHeader rs ''Access-Control-Allow-Origin'' ''*'')
        ''Content-Type'' (or_else (resp_contentType r) ''application/octet-stream'')) 200) buf,
      c(cid \<mapsto> \<lparr>data = buf, contentType = resp_contentType r, timestamp = now\<rparr>),
      [ipfsUrl cid])"
  using assms by (simp add: handler_def Let_def)

lemma handler_urls_le1:
  "handler fetch now c rq rs = (rs', c', urls) \<Longrightarrow> length urls \<le> 1"
  by (auto simp: handler_def Let_def
      split: option.splits if_splits fetch_result.splits sum.splits)

text \<open>One call leaves the cache as it was or writes the entry of the requested key.\<close>

lemma handler_cache_step:
  "handler fetch now c rq rs = (rs', c', urls) \<Longrightarrow>
   c' = c \<or> (\<exists>cid buf ct. query_cid rq = Some cid \<and>
                c' = c(cid \<mapsto> \<lparr>data = buf, contentType = ct, timestamp = now\<rparr>))"
  by (auto simp: handler_def Let_def
      split: option.splits if_splits fetch_result.splits sum.splits)

lemma fst_serve_Cons:
  "fst (serve c (k # ks)) =
   fst (serve (fst (snd (handler (call_fetch k) (call_now k) c (call_req k) new_res))) ks)"
  by (simp split: prod.splits)

lemma serve_append:
  "fst (serve c (ks @ ks')) = fst (serve (fst (serve c ks)) ks')"
proof (induction ks arbitrary: c)
  case Nil
  show ?case by simp
next
  case (Cons k ks)
  show ?case unfolding append_Cons fst_serve_Cons by (rule Cons.IH)
qed

lemma serve_keeps: "c k \<noteq> None \<Longrightarrow> fst (serve c ks) k \<noteq> None"
proof (induction ks arbitrary: c)
  case Nil
  then show ?case by simp
next
  case (Cons a ks)
  obtain rs c' urls
    where h: "handler (call_fetch a) (call_now a) c (call_req a) new_res = (rs, c', urls)"
    by (cases "handler (call_fetch a) (call_now a) c (call_req a) new_res") auto
  from handler_cache_step [OF h] Cons.prems have "c' k \<noteq> None"
    by auto
  then have "fst (serve c' ks) k \<noteq> None"
    by (rule Cons.IH)
  with h show ?case
    unfolding fst_serve_Cons by simp
qed

text \<open>
  C4. Two calls for the same identifier, one after the other: when the cache after the
  first call holds an entry for the identifier and the second call comes less than
  \<open>CACHE_TTL\<close> after that entry's timestamp, the second call asks nothing upstream, so
  the two calls together ask at most once; it answers 200 with the cached bytes and the
  cached content type (the default type when none was cached) and leaves the cache alone.
\<close>

theorem second_call_within_ttl_is_hit:
  assumes "query_cid rq = Some cid" and "cid \<noteq> []"
    and first: "handler fetch1 now1 c rq rs_a = (r1, c1, urls1)"
    and entry: "c1 cid = Some e" and fresh: "now2 - timestamp e < CACHE_TTL"
    and second: "handler fetch2 now2 c1 rq rs_b = (r2, c2, urls2)"
  shows "urls2 = [] \<and> length (urls1 @ urls2) \<le> 1 \<and> statusCode r2 = 200 \<and>
         body r2 = Some (Raw (data e)) \<and>
         headers r2 ''Content-Type'' =
           Some (or_else (contentType e) ''application/octet-stream'') \<and>
         c2 = c1"
proof -
  from second handler_hit [where c = c1 and fetch = fetch2 and rs = rs_b,
      OF assms(1,2) entry fresh]
  have "r2 = res_send (res_status (res_setHeader
          (res_setHeader rs_b ''Access-Control-Allow-Origin'' ''*'')
          ''Content-Type'' (or_else (contentType e) ''application/octet-stream'')) 200) (data e)"
    and "c2 = c1" and "urls2 = []"
    by simp_all
  moreover from first have "length urls1 \<le> 1"
    by (rule handler_urls_le1)
  ultimately show ?thesis
    by (simp add: res_ops)
qed

theorem second_call_within_ttl_is_hit_witness:
  "(case handler (\<lambda>u. Resolved \<lparr>resp_status = 200, resp_contentType = Some ''video/mp4'',
                                     resp_body = Inr [1, 2, 3]\<rparr>)
           1000 Map.empty \<lparr>query_cid = Some ''Qm''\<rparr> new_res of
      (r1, c1, urls1) \<Rightarrow>
        (case handler (\<lambda>u. Rejected ''offline'') 200000 c1 \<lparr>query_cid = Some ''Qm''\<rparr> new_res of
           (r2, c2, urls2) \<Rightarrow>
             urls1 = [''https://gateway.pinata.cloud/ipfs/Qm''] \<and> urls2 = [] \<and>
             statusCode r2 = 200 \<and> body r2 = Some (Raw [1, 2, 3]) \<and>
             headers r2 ''Content-Type'' = Some ''video/mp4'' \<and> c2 = c1))"
proof -
  let ?rq = "\<lparr>query_cid = Some ''Qm''\<rparr>"
  let ?e = "\<lparr>data = [1, 2, 3], contentType = Some ''video/mp4'', timestamp = 1000\<rparr>"
  let ?f1 = "\<lambda>u :: string. Resolved \<lparr>resp_status = 200, resp_contentType = Some ''video/mp4'',
                                        resp_body = Inr ([1, 2, 3] :: bytes)\<rparr>"
  let ?f2 = "\<lambda>u :: string. Rejected ''offline'' :: bytes fetch_result"
  obtain r1 where first: "handler ?f1 1000 Map.empty ?rq new_res =
      (r1, [''Qm'' \<mapsto> ?e], [''https://gateway.pinata.cloud/ipfs/Qm''])"
    by (simp add: handler_def cache_lookup_def ok_def ipfsUrl_def Let_def)
  obtain r2 c2 urls2 where second:
    "handler ?f2 200000 [''Qm'' \<mapsto> ?e] ?rq new_res = (r2, c2, urls2)"
    by (cases "handler ?f2 200000 [''Qm'' \<mapsto> ?e] ?rq new_res") auto
  have "urls2 = [] \<and> length ([''https://gateway.pinata.cloud/ipfs/Qm''] @ urls2) \<le> 1 \<and>
        statusCode r2 = 200 \<and> body r2 = Some (Raw (data ?e)) \<and>
        headers r2 ''Content-Type'' =
          Some (or_else (contentType ?e) ''application/octet-stream'') \<and>
        c2 = [''Qm'' \<mapsto> ?e]"
    by (rule second_call_within_ttl_is_hit [OF _ _ first _ _ second, of "''Qm''"])
       (simp_all add: CACHE_TTL_def)
  with first second show ?thesis
    by (simp add: or_else_def)
qed

text \<open>
  C5. When the identifier is present, no fresh entry is cached and the gateway answers
  with a status outside 200..299, the proxy answers with that same status and the body
  \<^verbatim>\<open>{error: "Failed to fetch IPFS content"}\<close>, after one upstream request, and the
  cache is what it was.
\<close>

theorem upstream_failure_propagated:
  assumes "query_cid rq = Some cid" and "cid \<noteq> []"
    and "cache_lookup c cid now = None"
    and "fetch (ipfsUrl cid) = Resolved r" and "\<not> ok r"
    and "handler fetch now c rq rs = (rs', c', urls)"
  shows "statusCode rs' = resp_status r \<and>
         body rs' = Some (Json [(''error'', ''Failed to fetch IPFS content'')]) \<and>
         c' = c \<and> urls = [ipfsUrl cid]"
  using assms by (auto simp: handler_def res_ops)

theorem upstream_failure_propagated_witness:
  "(case handler (\<lambda>u. Resolved \<lparr>resp_status = 404, resp_contentType = None,
                                     resp_body = Inr []\<rparr>)
           5 Map.empty \<lparr>query_cid = Some ''Qm''\<rparr> new_res of
      (rs', c', urls) \<Rightarrow>
        statusCode rs' = 404 \<and>
        body rs' = Some (Json [(''error'', ''Failed to fetch IPFS content'')]) \<and>
        c' ''Qm'' = None \<and> urls = [''https://gateway.pinata.cloud/ipfs/Qm''])"
proof -
  let ?r = "\<lparr>resp_status = 404, resp_contentType = None, resp_body = Inr ([] :: bytes)\<rparr>"
  let ?f = "\<lambda>u :: string. Resolved ?r"
  let ?rq = "\<lparr>query_cid = Some ''Qm''\<rparr>"
  obtain rs' c' urls where h: "handler ?f 5 Map.empty ?rq new_res = (rs', c', urls)"
    by (cases "handler ?f 5 Map.empty ?rq new_res") auto
  have "statusCode rs' = resp_status ?r \<and>
        body rs' = Some (Json [(''error'', ''Failed to fetch IPFS content'')]) \<and>
        c' = Map.empty \<and> urls = [ipfsUrl ''Qm'']"
    by (rule upstream_failure_propagated [OF _ _ _ _ _ h, of "''Qm''"])
       (simp_all add: cache_lookup_def ok_def)
  with h show ?thesis
    by (simp add: ipfsUrl_def)
qed

text \<open>
  C6. When the \<^verbatim>\<open>cid\<close> query parameter is absent or empty, the proxy answers 400 with
  the body \<^verbatim>\<open>{error: "Missing CID"}\<close>, asks nothing upstream and leaves the cache as
  it was.
\<close>

theorem missing_cid_bad_request:
  assumes "query_cid rq = None \<or> query_cid rq = Some []"
    and "handler fetch now c rq rs = (rs', c', urls)"
  shows "statusCode rs' = 400 \<and> body rs' = Some (Json [(''error'', ''Missing CID'')]) \<and>
         urls = [] \<and> c' = c"
  using assms by (auto simp: handler_def res_ops)

theorem missing_cid_bad_request_witness:
  "(case handler (\<lambda>u. Resolved \<lparr>resp_status = 200, resp_contentType = None,
                                     resp_body = Inr [1]\<rparr>)
           5 Map.empty \<lparr>query_cid = Some []\<rparr> new_res of
      (rs', c', urls) \<Rightarrow>
        statusCode rs' = 400 \<and> body rs' = Some (Json [(''error'', ''Missing CID'')]) \<and>
        urls = [] \<and> c' ''Qm'' = None)"
proof -
  let ?f = "\<lambda>u :: string. Resolved \<lparr>resp_status = 200, resp_contentType = None,
                                       resp_body = Inr ([1] :: bytes)\<rparr>"
  let ?rq = "\<lparr>query_cid = Some []\<rparr>"
  obtain rs' c' urls where h: "handler ?f 5 Map.empty ?rq new_res = (rs', c', urls)"
    by (cases "handler ?f 5 Map.empty ?rq new_res") auto
  have "statusCode rs' = 400 \<and> body rs' = Some (Json [(''error'', ''Missing CID'')]) \<and>
        urls = [] \<and> c' = Map.empty"
    by (rule missing_cid_bad_request [OF _ h]) simp
  with h show ?thesis
    by simp
qed

text \<open>
  C7, as the code has it. A response with status 200 (cache hit or fresh fetch) carries
  \<^verbatim>\<open>Access-Control-Allow-Origin: *\<close>. On every other response (the 400 for a missing
  identifier, the propagated upstream status, the 500) the handler does not set that
  header: the response has it only if it had it when the handler was called.
\<close>

theorem cors_header_on_success_only:
  "handler fetch now c rq rs = (rs', c', urls) \<Longrightarrow>
     (if statusCode rs' = 200 then headers rs' ''Access-Control-Allow-Origin'' = Some ''*''
      else headers rs' ''Access-Control-Allow-Origin'' =
           headers rs ''Access-Control-Allow-Origin'')"
  by (auto simp: handler_def Let_def res_ops ok_def
      split: option.splits if_splits fetch_result.splits sum.splits)

theorem cors_header_on_success_only_witness:
  "(case handler (\<lambda>u. Resolved \<lparr>resp_status = 200, resp_contentType = None,
                                     resp_body = Inr [1]\<rparr>)
           5 Map.empty \<lparr>query_cid = Some ''Qm''\<rparr> new_res of
      (rs', c', urls) \<Rightarrow>
        statusCode rs' = 200 \<and> headers rs' ''Access-Control-Allow-Origin'' = Some ''*'')"
proof -
  let ?f = "\<lambda>u :: string. Resolved \<lparr>resp_status = 200, resp_contentType = None,
                                       resp_body = Inr ([1] :: bytes)\<rparr>"
  let ?rq = "\<lparr>query_cid = Some ''Qm''\<rparr>"
  obtain rs' c' urls where h: "handler ?f 5 Map.empty ?rq new_res = (rs', c', urls)"
    by (cases "handler ?f 5 Map.empty ?rq new_res") auto
  then have s: "statusCode rs' = 200"
    by (auto simp: handler_def cache_lookup_def ok_def Let_def res_ops)
  with cors_header_on_success_only [OF h]
  have "headers rs' ''Access-Control-Allow-Origin'' = Some ''*''"
    by simp
  with h s show ?thesis
    by simp
qed

text \<open>
  C7, as the claim has it, fails: the 400 answer to a request without \<^verbatim>\<open>cid\<close>, on a
  new response object, has no \<^verbatim>\<open>Access-Control-Allow-Origin\<close> header.
\<close>

theorem error_response_without_cors:
  "statusCode (fst (handler (\<lambda>u. Rejected ''offline'') 0 Map.empty
                      \<lparr>query_cid = None\<rparr> new_res)) = 400 \<and>
   headers (fst (handler (\<lambda>u. Rejected ''offline'') 0 Map.empty
                   \<lparr>query_cid = None\<rparr> new_res))
     ''Access-Control-Allow-Origin'' = None"
  by (simp add: handler_def res_ops new_res_def)

text \<open>
  C9. Requests served one after the other never remove a key from the cache: a key
  present after some requests is still present after any further ones.
\<close>

theorem cache_never_removes:
  "fst (serve c ks) k \<noteq> None \<Longrightarrow> fst (serve c (ks @ ks')) k \<noteq> None"
  by (simp add: serve_append serve_keeps)

theorem cache_never_removes_witness:
  "fst (serve Map.empty
     [\<lparr>call_fetch = (\<lambda>u. Resolved \<lparr>resp_status = 200, resp_contentType = None,
                                      resp_body = Inr [1]\<rparr>),
       call_now = 0, call_req = \<lparr>query_cid = Some ''Qm''\<rparr>\<rparr>]) ''Qm'' \<noteq> None \<and>
   fst (serve Map.empty
     ([\<lparr>call_fetch = (\<lambda>u. Resolved \<lparr>resp_status = 200, resp_contentType = None,
                                       resp_body = Inr [1]\<rparr>),
        call_now = 0, call_req = \<lparr>query_cid = Some ''Qm''\<rparr>\<rparr>] @
      [\<lparr>call_fetch = (\<lambda>u. Resolved \<lparr>resp_status = 404, resp_contentType = None,
                                       resp_body = Inr []\<rparr>),
        call_now = 900000, call_req = \<lparr>query_cid = Some ''Qm''\<rparr>\<rparr>])) ''Qm'' \<noteq> None"
proof -
  let ?k1 = "\<lparr>call_fetch = (\<lambda>u. Resolved \<lparr>resp_status = 200, resp_contentType = None,
                                            resp_body = Inr ([1] :: bytes)\<rparr>),
              call_now = 0, call_req = \<lparr>query_cid = Some ''Qm''\<rparr>\<rparr>"
  have a: "fst (serve Map.empty [?k1]) ''Qm'' \<noteq> None"
    by (simp add: handler_def cache_lookup_def ok_def Let_def)
  from a cache_never_removes [OF a] show ?thesis
    by blast
qed

text \<open>
  C10. Whenever the proxy answers 200 and the content type it has for the content is
  null (that of the fresh cache entry on a hit, that of the gateway's response on a
  fetch), the \<^verbatim>\<open>Content-Type\<close> header of the answer is \<^verbatim>\<open>application/octet-stream\<close>.
\<close>

theorem default_content_type:
  assumes "query_cid rq = Some cid"
    and "handler fetch now c rq rs = (rs', c', urls)" and "statusCode rs' = 200"
    and "case cache_lookup c cid now of
           Some e \<Rightarrow> contentType e = None
         | None \<Rightarrow> (case fetch (ipfsUrl cid) of
                      Resolved r \<Rightarrow> resp_contentType r = None
                    | Rejected m \<Rightarrow> False)"
  shows "headers rs' ''Content-Type'' = Some ''application/octet-stream''"
  using assms
  by (auto simp: handler_def Let_def res_ops or_else_def ok_def
      split: option.splits if_splits fetch_result.splits sum.splits)

theorem default_content_type_witness:
  "(case handler (\<lambda>u. Resolved \<lparr>resp_status = 200, resp_contentType = None,
                                     resp_body = Inr [1]\<rparr>)
           5 Map.empty \<lparr>query_cid = Some ''Qm''\<rparr> new_res of
      (rs', c', urls) \<Rightarrow>
        statusCode rs' = 200 \<and>
        headers rs' ''Content-Type'' = Some ''application/octet-stream'') \<and>
   (case handler (\<lambda>u. Rejected ''offline'') 5
           [''Qm'' \<mapsto> \<lparr>data = [1], contentType = None, timestamp = 0\<rparr>]
           \<lparr>query_cid = Some ''Qm''\<rparr> new_res of
      (rs', c', urls) \<Rightarrow>
        statusCode rs' = 200 \<and>
        headers rs' ''Content-Type'' = Some ''application/octet-stream'')"
proof -
  let ?f = "\<lambda>u :: string. Resolved \<lparr>resp_status = 200, resp_contentType = None,
                                       resp_body = Inr ([1] :: bytes)\<rparr>"
  let ?g = "\<lambda>u :: string. Rejected ''offline'' :: bytes fetch_result"
  let ?c = "[''Qm'' \<mapsto> \<lparr>data = [1], contentType = None, timestamp = 0\<rparr>]"
  let ?rq = "\<lparr>query_cid = Some ''Qm''\<rparr>"
  obtain rs1 c1 urls1 where h1: "handler ?f 5 Map.empty ?rq new_res = (rs1, c1, urls1)"
    by (cases "handler ?f 5 Map.empty ?rq new_res") auto
  then have s1: "statusCode rs1 = 200"
    by (auto simp: handler_def cache_lookup_def ok_def Let_def res_ops)
  have t1: "headers rs1 ''Content-Type'' = Some ''application/octet-stream''"
    by (rule default_content_type [OF _ h1 s1, of "''Qm''"]) (simp_all add: cache_lookup_def)
  obtain rs2 c2 urls2 where h2: "handler ?g 5 ?c ?rq new_res = (rs2, c2, urls2)"
    by (cases "handler ?g 5 ?c ?rq new_res") auto
  then have s2: "statusCode rs2 = 200"
    by (auto simp: handler_def cache_lookup_def CACHE_TTL_def Let_def res_ops)
  have t2: "headers rs2 ''Content-Type'' = Some ''application/octet-stream''"
    by (rule default_content_type [OF _ h2 s2, of "''Qm''"])
       (simp_all add: cache_lookup_def CACHE_TTL_def)
  from h1 s1 t1 h2 s2 t2 show ?thesis
    by simp
qed

section \<open>Properties of the envelope pipeline\<close>


lemma binding_cipher_correct:
  "\<exists>c. encrypt binding_cipher k n p = Some c \<and> decrypt binding_cipher k n c = Some p"
  by (simp add: binding_cipher_def)

lemma length_getRandomValues: "getRandomValues rnd n = (a, rnd') \<Longrightarrow> length a = n"
  by (auto simp: getRandomValues_def)

lemma u8_set_blank_prefix:
  "u8_set (replicate (length a + length b) 0) a 0 = Some (a @ replicate (length b) 0)"
  by (simp add: u8_set_def replicate_add [symmetric] del: replicate_add)

lemma u8_set_suffix:
  "u8_set (a @ replicate (length b) 0) b (length a) = Some (a @ b)"
  by (simp add: u8_set_def)

lemma Uint8Array_of_Array_from: "Uint8Array_of (Array_from a) = a"
  by (simp add: Uint8Array_of_def Array_from_def map_idI)

lemma encryptVideo_success:
  assumes "readFileSync filePath = Some p"
    and "generateKey rnd = (rawKey, rnd1)" and "getRandomValues rnd1 12 = (nonce, rnd2)"
    and "encrypt sc rawKey nonce p = Some ct"
  shows "encryptVideo sc rnd readFileSync filePath =
           [Encrypt rawKey nonce p,
            WriteFile ''encryptedVideo.bin'' (Binary (nonce @ ct)),
            WriteFile ''encryptionKey.json''
              (KeyJson \<lparr>key = Array_from rawKey, iv = Array_from nonce\<rparr>)]"
  using assms by (simp add: encryptVideo_def u8_set_blank_prefix u8_set_suffix)

lemma loadAndDisplay_reaches_decrypt:
  assumes "ok vr" and "resp_body vr = Inr env" and "ok kr" and "resp_body kr = Inr kd"
    and "importKey (Uint8Array_of (key kd)) = Some ck"
  shows "loadAndDisplay sc (Resolved vr) (Resolved kr) pg =
     (let called = [ConsoleLog ''IV extracted from file:'' (take 12 env),
                    ConsoleLog ''IV from encryptionKey.json:'' (Uint8Array_of (iv kd)),
                    Decrypt ck (Uint8Array_of (iv kd)) (drop 12 env)]
      in case decrypt sc ck (Uint8Array_of (iv kd)) (drop 12 env) of
           None \<Rightarrow> catch_block pg called
         | Some decrypted \<Rightarrow>
             (pg\<lparr>videoPlayer_src := Some decrypted,
                 videoPlayer_display := ''block'',
                 videoContainer_display := ''block'',
                 message_textContent := message_textContent pg @ '' | Video loaded!''\<rparr>,
              called))"
  using assms by (simp add: loadAndDisplay_def u8_slice_def u8_slice_from_def Let_def)

text \<open>
  When the cipher rejects the data (the tag check fails), the \<^verbatim>\<open>catch\<close> block runs:
  the video element gets no source, nothing is unhidden, and the message is the failure
  text.
\<close>

lemma rejected_decrypt_shows_nothing:
  assumes "ok vr" and "resp_body vr = Inr env" and "ok kr" and "resp_body kr = Inr kd"
    and "importKey (Uint8Array_of (key kd)) = Some ck"
    and "decrypt sc ck (Uint8Array_of (iv kd)) (drop 12 env) = None"
  shows "fst (loadAndDisplay sc (Resolved vr) (Resolved kr) pg) =
           pg\<lparr>message_textContent := decryption_failed\<rparr>"
  using assms by (simp add: loadAndDisplay_reaches_decrypt catch_block_def)

text \<open>Whatever happens, a source is set on the video element only from a decrypt result.\<close>

lemma video_src_from_decrypt:
  "videoPlayer_src (fst (loadAndDisplay sc vf kf pg)) = Some out \<Longrightarrow>
   videoPlayer_src pg = Some out \<or>
   (\<exists>k n d. decrypt sc k n d = Some out \<and>
      (n, d) \<in> set (decrypt_calls (snd (loadAndDisplay sc vf kf pg))))"
  by (auto simp: loadAndDisplay_def catch_block_def Let_def
      split: fetch_result.splits if_splits sum.splits option.splits)

text \<open>
  C1, as the code has it. When both fetches succeed and the key imports, the consumer
  calls \<^verbatim>\<open>subtle.decrypt\<close> exactly once, and the nonce it passes is the \<^verbatim>\<open>iv\<close> field
  of the key material (as bytes), whatever the first 12 bytes of the envelope are; the
  data it passes is the envelope from byte 12 on.
\<close>

theorem consume_decrypts_with_key_material_iv:
  assumes "ok vr" and "resp_body vr = Inr env" and "ok kr" and "resp_body kr = Inr kd"
    and "importKey (Uint8Array_of (key kd)) = Some ck"
  shows "decrypt_calls (snd (loadAndDisplay sc (Resolved vr) (Resolved kr) pg)) =
           [(Uint8Array_of (iv kd), u8_slice_from env 12)]"
  using assms
  by (simp add: loadAndDisplay_reaches_decrypt catch_block_def u8_slice_from_def Let_def
      split: option.splits)

theorem consume_decrypts_with_key_material_iv_witness:
  "decrypt_calls (snd (loadAndDisplay tagging_cipher
      (Resolved \<lparr>resp_status = 200, resp_contentType = None,
                 resp_body = Inr (replicate 12 0 @ [9, 9])\<rparr>)
      (Resolved \<lparr>resp_status = 200, resp_contentType = None,
                 resp_body = Inr \<lparr>key = replicate 32 7, iv = replicate 12 1\<rparr>\<rparr>)
      hidden_page)) = [(replicate 12 1, [9, 9])]"
  using consume_decrypts_with_key_material_iv
    [of "\<lparr>resp_status = 200, resp_contentType = None,
          resp_body = Inr (replicate 12 0 @ [9, 9])\<rparr>" "replicate 12 0 @ [9, 9]"
        "\<lparr>resp_status = 200, resp_contentType = None,
          resp_body = Inr \<lparr>key = replicate 32 7, iv = replicate 12 1\<rparr>\<rparr>"
        "\<lparr>key = replicate 32 7, iv = replicate 12 1\<rparr>" "replicate 32 7"
        tagging_cipher hidden_page]
  by (simp add: ok_def importKey_def Uint8Array_of_def u8_slice_from_def)

text \<open>
  C1, as the claim has it, fails: with an envelope that starts with twelve 0 bytes and
  key material whose \<^verbatim>\<open>iv\<close> is twelve 1 bytes, the nonce given to \<^verbatim>\<open>subtle.decrypt\<close>
  is the twelve 1 bytes, not bytes 0..11 of the envelope.
\<close>

theorem consume_nonce_not_from_envelope:
  "map fst (decrypt_calls (snd (loadAndDisplay tagging_cipher
      (Resolved \<lparr>resp_status = 200, resp_contentType = None,
                 resp_body = Inr (replicate 12 0 @ [9, 9])\<rparr>)
      (Resolved \<lparr>resp_status = 200, resp_contentType = None,
                 resp_body = Inr \<lparr>key = replicate 32 7, iv = replicate 12 1\<rparr>\<rparr>)
      hidden_page))) = [replicate 12 1] \<and>
   u8_slice (replicate 12 0 @ [9, 9]) 0 12 = replicate 12 0 \<and>
   replicate 12 (1 :: byte) \<noteq> replicate 12 0"
  by (simp add: loadAndDisplay_def ok_def importKey_def Uint8Array_of_def u8_slice_def
      u8_slice_from_def tagging_cipher_def catch_block_def Let_def)




text \<open>
  C8. The envelope file the producer writes is the 12-byte nonce followed by the
  cipher's output and nothing else, so it is \<open>12 + |ciphertext|\<close> bytes long; slicing it
  as the consumer does gives the nonce and the ciphertext back; and on any envelope the
  consumer takes bytes 0..11 as the nonce from the file (which it logs) and the bytes
  from 12 on as the ciphertext (which it passes to \<^verbatim>\<open>subtle.decrypt\<close>).
\<close>

theorem envelope_is_nonce_then_ciphertext:
  assumes src: "readFileSync filePath = Some p"
    and gk: "generateKey rnd = (rawKey, rnd1)"
    and gn: "getRandomValues rnd1 12 = (nonce, rnd2)"
    and enc: "encrypt sc rawKey nonce p = Some ct"
  shows "length nonce = 12 \<and>
         files_written (encryptVideo sc rnd readFileSync filePath) =
           [(''encryptedVideo.bin'', Binary (nonce @ ct)),
            (''encryptionKey.json'',
             KeyJson \<lparr>key = Array_from rawKey, iv = Array_from nonce\<rparr>)] \<and>
         length (nonce @ ct) = 12 + length ct \<and>
         u8_slice (nonce @ ct) 0 12 = nonce \<and> u8_slice_from (nonce @ ct) 12 = ct \<and>
         (\<forall>env vr kr kd ck pg.
            ok vr \<and> resp_body vr = Inr env \<and> ok kr \<and> resp_body kr = Inr kd \<and>
            importKey (Uint8Array_of (key kd)) = Some ck \<longrightarrow>
            take 3 (snd (loadAndDisplay sc (Resolved vr) (Resolved kr) pg)) =
              [ConsoleLog ''IV extracted from file:'' (u8_slice env 0 12),
               ConsoleLog ''IV from encryptionKey.json:'' (Uint8Array_of (iv kd)),
               Decrypt ck (Uint8Array_of (iv kd)) (u8_slice_from env 12)])"
proof -
  from gn have ln: "length nonce = 12"
    by (rule length_getRandomValues)
  have written: "files_written (encryptVideo sc rnd readFileSync filePath) =
      [(''encryptedVideo.bin'', Binary (nonce @ ct)),
       (''encryptionKey.json'', KeyJson \<lparr>key = Array_from rawKey, iv = Array_from nonce\<rparr>)]"
    by (simp add: encryptVideo_success
        [where readFileSync = readFileSync and filePath = filePath, OF src gk gn enc])
  have parse: "take 3 (snd (loadAndDisplay sc (Resolved vr) (Resolved kr) pg)) =
      [ConsoleLog ''IV extracted from file:'' (u8_slice env 0 12),
       ConsoleLog ''IV from encryptionKey.json:'' (Uint8Array_of (iv kd)),
       Decrypt ck (Uint8Array_of (iv kd)) (u8_slice_from env 12)]"
    if "ok vr" and "resp_body vr = Inr env" and "ok kr" and "resp_body kr = Inr kd"
      and "importKey (Uint8Array_of (key kd)) = Some ck"
    for env vr kr kd ck pg
    by (simp add: loadAndDisplay_reaches_decrypt [OF that] catch_block_def u8_slice_def
        u8_slice_from_def Let_def split: option.splits)
  from ln written parse show ?thesis
    by (simp add: u8_slice_def u8_slice_from_def)
qed

theorem envelope_is_nonce_then_ciphertext_witness:
  "length (map (\<lambda>i. of_nat (i + 32)) [0..<12] :: bytes) = 12 \<and>
   files_written (encryptVideo tagging_cipher (\<lambda>i. of_nat i)
       (\<lambda>path. Some [72, 69]) ''video.mp4'') =
     [(''encryptedVideo.bin'',
       Binary (map (\<lambda>i. of_nat (i + 32)) [0..<12] @ [72, 69] @ take 16 (map of_nat [0..<32]))),
      (''encryptionKey.json'',
       KeyJson \<lparr>key = Array_from (map of_nat [0..<32]),
                iv = Array_from (map (\<lambda>i. of_nat (i + 32)) [0..<12])\<rparr>)] \<and>
   u8_slice (map (\<lambda>i. of_nat (i + 32)) [0..<12] @ [72, 69] @ take 16 (map of_nat [0..<32])) 0 12 =
     (map (\<lambda>i. of_nat (i + 32)) [0..<12] :: bytes) \<and>
   u8_slice_from (map (\<lambda>i. of_nat (i + 32)) [0..<12] @ [72, 69] @ take 16 (map of_nat [0..<32])) 12 =
     ([72, 69] @ take 16 (map of_nat [0..<32]) :: bytes) \<and>
   take 3 (snd (loadAndDisplay tagging_cipher
       (Resolved \<lparr>resp_status = 200, resp_contentType = None,
          resp_body = Inr (map (\<lambda>i. of_nat (i + 32)) [0..<12] @ [72, 69] @
                           take 16 (map of_nat [0..<32]))\<rparr>)
       (Resolved \<lparr>resp_status = 200, resp_contentType = None,
          resp_body = Inr \<lparr>key = Array_from (map of_nat [0..<32]),
                            iv = Array_from (map (\<lambda>i. of_nat (i + 32)) [0..<12])\<rparr>\<rparr>)
       hidden_page)) =
     [ConsoleLog ''IV extracted from file:'' (map (\<lambda>i. of_nat (i + 32)) [0..<12]),
      ConsoleLog ''IV from encryptionKey.json:'' (map (\<lambda>i. of_nat (i + 32)) [0..<12]),
      Decrypt (map of_nat [0..<32]) (map (\<lambda>i. of_nat (i + 32)) [0..<12])
        ([72, 69] @ take 16 (map of_nat [0..<32]))]"
proof -
  let ?K = "map of_nat [0..<32] :: bytes"
  let ?N = "map (\<lambda>i. of_nat (i + 32)) [0..<12] :: bytes"
  let ?CT = "[72, 69] @ take 16 ?K :: bytes"
  let ?rnd = "\<lambda>i. of_nat i :: byte"
  let ?read = "\<lambda>path :: string. Some ([72, 69] :: bytes)"
  let ?km = "\<lparr>key = Array_from ?K, iv = Array_from ?N\<rparr>"
  let ?vr = "\<lparr>resp_status = 200, resp_contentType = None, resp_body = Inr (?N @ ?CT)\<rparr>"
  let ?kr = "\<lparr>resp_status = 200, resp_contentType = None, resp_body = Inr ?km\<rparr>"
  have src: "?read ''video.mp4'' = Some [72, 69]"
    by simp
  have gk: "generateKey ?rnd = (?K, \<lambda>i. of_nat (i + 32))"
    by (simp add: generateKey_def getRandomValues_def)
  have gn: "getRandomValues (\<lambda>i. of_nat (i + 32)) 12 = (?N, \<lambda>i. of_nat (i + 12 + 32))"
    by (simp add: getRandomValues_def)
  have enc: "encrypt tagging_cipher ?K ?N [72, 69] = Some ?CT"
    by (simp add: tagging_cipher_def)
  have imp: "importKey (Uint8Array_of (key ?km)) = Some ?K"
    by (simp add: Uint8Array_of_Array_from importKey_def)
  note t = envelope_is_nonce_then_ciphertext
    [where readFileSync = ?read and filePath = "''video.mp4''", OF src gk gn enc]
  from t have q: "ok vr \<and> resp_body vr = Inr env \<and> ok kr \<and> resp_body kr = Inr kd \<and>
      importKey (Uint8Array_of (key kd)) = Some ck \<Longrightarrow>
      take 3 (snd (loadAndDisplay tagging_cipher (Resolved vr) (Resolved kr) pg)) =
        [ConsoleLog ''IV extracted from file:'' (u8_slice env 0 12),
         ConsoleLog ''IV from encryptionKey.json:'' (Uint8Array_of (iv kd)),
         Decrypt ck (Uint8Array_of (iv kd)) (u8_slice_from env 12)]" for vr env kr kd ck pg
    by blast
  have "take 3 (snd (loadAndDisplay tagging_cipher (Resolved ?vr) (Resolved ?kr) hidden_page)) =
      [ConsoleLog ''IV extracted from file:'' (u8_slice (?N @ ?CT) 0 12),
       ConsoleLog ''IV from encryptionKey.json:'' (Uint8Array_of (iv ?km)),
       Decrypt ?K (Uint8Array_of (iv ?km)) (u8_slice_from (?N @ ?CT) 12)]"
    using imp by (intro q) (simp add: ok_def)
  with t show ?thesis
    by (simp add: Uint8Array_of_Array_from)
qed

end
